theory Spec2Isabelle
  imports Complex_Main "HOL-Library.Word" "HOL-Library.Product_Lexorder"
begin

section \<open>Numbers and strings of the source language\<close>

text \<open>
  The front end is TypeScript. A \<^verbatim>\<open>number\<close> is an IEEE 754 binary64 value; the model
  represents a finite one by the real it denotes. The state and year score computes with
  integers and halves of moderate size, where the operations are exact, and is written with
  the operations on reals. The simulation multiplies and adds with the weights \<^verbatim>\<open>0.2\<close> and
  \<^verbatim>\<open>0.15\<close>, which are not binary fractions: there every literal and every operation is rounded
  to the nearest binary64 value, ties to even, by \<open>double\<close>. The trend counts are built from
  \<^verbatim>\<open>Math.sin\<close>, which is a parameter of the model; their sums are written on reals, and what
  is proved about the series holds whatever the counts are. Overflow to \<^verbatim>\<open>Infinity\<close> (beyond
  \<open>2 ^ 1024\<close>) and \<^verbatim>\<open>NaN\<close> are outside the model.

  A string is the list of its UTF-16 code units, so \<^verbatim>\<open>s.length\<close> is \<^term>\<open>length s\<close>; the
  ASCII literals of the source are written with \<open>ascii\<close>. Years, which the callers take from
  \<^verbatim>\<open>YEARS\<close>, are integers.
\<close>

type_synonym jsstring = "16 word list"

definition ascii :: "string \<Rightarrow> jsstring" where
  "ascii s = map (\<lambda>c. of_nat (of_char c)) s"

definition Math_round :: "real \<Rightarrow> real" where
  \<comment> \<open>\<^verbatim>\<open>Math.round\<close>: the nearest integer, a half rounded towards plus infinity.\<close>
  "Math_round x = of_int \<lfloor>x + 1 / 2\<rfloor>"

definition js_rem :: "int \<Rightarrow> int \<Rightarrow> int" where
  \<comment> \<open>The operator \<^verbatim>\<open>%\<close> on integers: the remainder takes the sign of the dividend.\<close>
  "js_rem a b = sgn a * (\<bar>a\<bar> mod \<bar>b\<bar>)"

subsection \<open>Rounding to binary64\<close>

definition pow2 :: "int \<Rightarrow> real" where
  "pow2 k = (if 0 \<le> k then 2 ^ nat k else 1 / 2 ^ nat (- k))"

fun ilog2 :: "nat \<Rightarrow> real \<Rightarrow> int" where
  \<comment> \<open>The binary exponent of a positive real: \<open>e\<close> with \<open>2 ^ e \<le> x < 2 ^ (e + 1)\<close>, found by
      halving or doubling; the first argument bounds the number of steps.\<close>
  "ilog2 0 x = 0"
| "ilog2 (Suc n) x =
     (if x < 1 then ilog2 n (2 * x) - 1 else if 2 \<le> x then ilog2 n (x / 2) + 1 else 0)"

definition round_half_even :: "real \<Rightarrow> int" where
  "round_half_even y =
     (let f = \<lfloor>y\<rfloor>; d = y - of_int f
      in if d < 1 / 2 then f else if 1 / 2 < d then f + 1 else if even f then f else f + 1)"

definition ulp :: "real \<Rightarrow> real" where
  \<comment> \<open>The spacing of the binary64 values around \<open>x\<close>: 53 significant bits, and the spacing
      \<open>2 ^ - 1074\<close> of the subnormal values at the least.\<close>
  "ulp x = pow2 (max (ilog2 1100 \<bar>x\<bar> - 52) (- 1074))"

definition double :: "real \<Rightarrow> real" where
  \<comment> \<open>The binary64 value nearest to \<open>x\<close>, ties to even.\<close>
  "double x = (if x = 0 then 0 else ulp x * of_int (round_half_even (x / ulp x)))"

definition fmul :: "real \<Rightarrow> real \<Rightarrow> real" where
  \<comment> \<open>\<^verbatim>\<open>x * y\<close> on binary64 values.\<close>
  "fmul x y = double (x * y)"

definition fadd :: "real \<Rightarrow> real \<Rightarrow> real" where
  \<comment> \<open>\<^verbatim>\<open>x + y\<close> on binary64 values.\<close>
  "fadd x y = double (x + y)"

definition fsub :: "real \<Rightarrow> real \<Rightarrow> real" where
  \<comment> \<open>\<^verbatim>\<open>x - y\<close> on binary64 values.\<close>
  "fsub x y = double (x - y)"

section \<open>Data model of \<^verbatim>\<open>mockData.ts\<close>\<close>

definition INDIAN_STATES :: "jsstring list" where
  "INDIAN_STATES = map ascii
    [''Andhra Pradesh'', ''Arunachal Pradesh'', ''Assam'', ''Bihar'', ''Chhattisgarh'',
     ''Goa'', ''Gujarat'', ''Haryana'', ''Himachal Pradesh'', ''Jharkhand'', ''Karnataka'',
     ''Kerala'', ''Madhya Pradesh'', ''Maharashtra'', ''Manipur'', ''Meghalaya'', ''Mizoram'',
     ''Nagaland'', ''Odisha'', ''Punjab'', ''Rajasthan'', ''Sikkim'', ''Tamil Nadu'',
     ''Telangana'', ''Tripura'', ''Uttar Pradesh'', ''Uttarakhand'', ''West Bengal'',
     ''Delhi'']"

definition YEARS :: "int list" where
  \<comment> \<open>\<^verbatim>\<open>Array.from({ length: 21 }, (_, i) => 2001 + i)\<close>\<close>
  "YEARS = map (\<lambda>i. 2001 + int i) [0..<21]"

datatype CrimeType =
  Rape | AssaultOnWomen | KidnappingAndAbduction | DomesticViolence | WomenTrafficking

definition CRIME_TYPES :: "CrimeType list" where
  "CRIME_TYPES =
    [Rape, AssaultOnWomen, KidnappingAndAbduction, DomesticViolence, WomenTrafficking]"

fun crimeTypeName :: "CrimeType \<Rightarrow> jsstring" where
  \<comment> \<open>The string literal each member of the union type \<^verbatim>\<open>CrimeType\<close> stands for.\<close>
  "crimeTypeName Rape = ascii ''Rape''"
| "crimeTypeName AssaultOnWomen = ascii ''Assault on Women''"
| "crimeTypeName KidnappingAndAbduction = ascii ''Kidnapping & Abduction''"
| "crimeTypeName DomesticViolence = ascii ''Domestic Violence''"
| "crimeTypeName WomenTrafficking = ascii ''Women Trafficking''"

datatype RiskLevel = Low | Medium | High

text \<open>
  The result objects share their fields: \<^verbatim>\<open>{ score, riskLevel }\<close> of the score calculator,
  extended by \<^verbatim>\<open>interpretation\<close> for the simulation and by \<^verbatim>\<open>rank\<close> and \<^verbatim>\<open>state\<close> for a
  leaderboard row; \<^verbatim>\<open>{ riskLevel, tips }\<close> for the recommendations.
\<close>

record RiskInfo =
  riskLevel :: RiskLevel

record SafetyScore = RiskInfo +
  score :: real

record SimulationResult = SafetyScore +
  interpretation_text :: jsstring

record LeaderboardEntry = SafetyScore +
  rank :: nat
  state :: jsstring

record Recommendations = RiskInfo +
  tips :: "jsstring list"

record TrendPoint =
  year :: int
  count :: real
  movingAvg :: "real option"

section \<open>Score calculator\<close>

definition calculateSafetyScore :: "jsstring \<Rightarrow> int \<Rightarrow> SafetyScore" where
  "calculateSafetyScore st yr =
     (let seed = int (length st) * yr;
          baseScore = 40 + js_rem seed 50;
          yearFactor = real_of_int (yr - 2001) * 0.5;
          sc = min 100 (max 0 (Math_round (real_of_int baseScore + yearFactor)));
          rl = (if sc \<ge> 70 then Low else if sc \<ge> 40 then Medium else High)
      in \<lparr>riskLevel = rl, score = sc\<rparr>)"

text \<open>
  A \<^verbatim>\<open>Record<CrimeType, number>\<close> is modelled by its entries in the order in which the keys
  were inserted, which is the order \<^verbatim>\<open>Object.entries\<close> lists them in and \<^verbatim>\<open>reduce\<close> adds them
  in. Each of the five keys occurs once (\<open>isCrimeValues\<close>). The keys are the members of
  \<^verbatim>\<open>CrimeType\<close>, as the type of the parameter says; an object with another key, for which
  \<^verbatim>\<open>weights[crime]\<close> is \<^verbatim>\<open>undefined\<close> and the sum \<^verbatim>\<open>NaN\<close>, is not a value of this type.
\<close>

type_synonym CrimeValues = "(CrimeType \<times> real) list"


definition crimeValuesObject :: "real \<Rightarrow> real \<Rightarrow> real \<Rightarrow> real \<Rightarrow> real \<Rightarrow> CrimeValues" where
  \<comment> \<open>The object literal \<^verbatim>\<open>{ "Rape": r, "Assault on Women": a, "Kidnapping & Abduction": k,
      "Domestic Violence": d, "Women Trafficking": t }\<close>, with the keys in the order of
      \<^verbatim>\<open>CRIME_TYPES\<close>.\<close>
  "crimeValuesObject r a k d t =
     [(Rape, r), (AssaultOnWomen, a), (KidnappingAndAbduction, k), (DomesticViolence, d),
      (WomenTrafficking, t)]"


fun weights :: "CrimeType \<Rightarrow> real" where
  "weights Rape = double 0.25"
| "weights AssaultOnWomen = double 0.2"
| "weights KidnappingAndAbduction = double 0.2"
| "weights DomesticViolence = double 0.2"
| "weights WomenTrafficking = double 0.15"

definition weightedSum :: "CrimeValues \<Rightarrow> real" where
  "weightedSum crimeValues =
     foldl (\<lambda>acc (crime, v). fadd acc (fmul v (weights crime))) 0 crimeValues"

fun interpretations :: "RiskLevel \<Rightarrow> jsstring" where
  "interpretations Low = ascii
     ''The projected safety level is favorable. Standard precautions are sufficient.''"
| "interpretations Medium = ascii
     ''Moderate risk detected. Enhanced awareness and safety protocols recommended.''"
| "interpretations High = ascii
     ''Elevated risk scenario. Immediate safety measures and emergency contacts should be readily available.''"

definition simulateSafetyScore :: "CrimeValues \<Rightarrow> SimulationResult" where
  "simulateSafetyScore crimeValues =
     (let sc = Math_round (fsub 100 (weightedSum crimeValues));
          rl = (if sc \<ge> 70 then Low else if sc \<ge> 40 then Medium else High)
      in \<lparr>riskLevel = rl, score = sc, interpretation_text = interpretations rl\<rparr>)"



definition em_dash :: jsstring where
  \<comment> \<open>U+2014\<close>
  "em_dash = [0x2014]"

definition getSafetyRecommendations :: "real \<Rightarrow> Recommendations" where
  "getSafetyRecommendations sc =
     (if sc \<ge> 70 then
        \<lparr>riskLevel = Low,
         tips =
          [ascii ''Maintain regular communication with family about your whereabouts'',
           ascii ''Keep emergency contacts saved on speed dial'',
           ascii ''Stay aware of your surroundings, especially in unfamiliar areas'',
           ascii ''Share your live location with trusted contacts during travel'',
           ascii ''Trust your instincts '' @ em_dash
             @ ascii '' if something feels wrong, leave the situation'']\<rparr>
      else if sc \<ge> 40 then
        \<lparr>riskLevel = Medium,
         tips =
          [ascii ''Avoid isolated areas, especially after dark'',
           ascii ''Travel in groups when possible'',
           ascii ''Keep your phone fully charged when going out'',
           ascii ''Inform family/friends about your travel plans in advance'',
           ascii ''Familiarize yourself with nearby police stations and safe zones'',
           ascii ''Consider carrying personal safety devices (whistle, pepper spray where legal)'',
           ascii ''Use verified transportation services and share trip details'']\<rparr>
      else
        \<lparr>riskLevel = High,
         tips =
          [ascii ''Limit travel to essential journeys only'',
           ascii ''Always travel with trusted companions'',
           ascii ''Keep emergency services numbers readily accessible'',
           ascii ''Share real-time location with multiple trusted contacts'',
           ascii ''Avoid public confrontations '' @ em_dash @ ascii '' prioritize de-escalation'',
           ascii ''Know the locations of hospitals, police stations, and women's shelters'',
           ascii ''Consider using SOS apps that alert multiple contacts simultaneously'',
           ascii ''Have a safety plan discussed with family for emergency situations'',
           ascii ''Stay connected '' @ em_dash @ ascii '' check in regularly with family/friends'']\<rparr>)"

definition risk_bucket :: "real \<Rightarrow> RiskLevel" where
  \<comment> \<open>The bucketing in the words of the specification: High if the score is below 40,
      Medium if it is from 40 up to but excluding 70, Low if it is 70 or more.\<close>
  "risk_bucket s = (if s < 40 then High else if s < 70 then Medium else Low)"

section \<open>Trend aggregator\<close>

text \<open>
  \<^verbatim>\<open>getCrimeTrendData\<close> builds the counts from \<^verbatim>\<open>Math.sin\<close>, a floating-point library
  function; it is a parameter of the model, so that what is proved holds for every
  implementation of it. The second \<^verbatim>\<open>data.map\<close> of the function, which attaches the moving
  average, is \<open>movingAvgPass\<close>. Every index it reads is below \<^term>\<open>length data\<close>.
\<close>

definition trendCounts :: "(real \<Rightarrow> real) \<Rightarrow> jsstring \<Rightarrow> CrimeType \<Rightarrow> TrendPoint list" where
  "trendCounts Math_sin st crimeType =
     (let seed = length st + length (crimeTypeName crimeType);
          baseCount = 500 + seed mod 2000
      in map (\<lambda>(index, yr).
               let trend = Math_sin (real index * 0.3) * 200;
                   noise = Math_sin (real seed * real_of_int yr) * 100;
                   growth = real index * 15;
                   cnt = max 0 (Math_round (real baseCount + trend + noise + growth))
               in \<lparr>year = yr, count = cnt, movingAvg = None\<rparr>)
             (enumerate 0 YEARS))"

definition movingAvgPass :: "TrendPoint list \<Rightarrow> TrendPoint list" where
  "movingAvgPass data =
     map (\<lambda>(index, item).
            if index \<ge> 2 then
              let avg = Math_round
                    ((count (data ! index) + count (data ! (index - 1))
                       + count (data ! (index - 2))) / 3)
              in item\<lparr>movingAvg := Some avg\<rparr>
            else item)
         (enumerate 0 data)"

definition getCrimeTrendData :: "(real \<Rightarrow> real) \<Rightarrow> jsstring \<Rightarrow> CrimeType \<Rightarrow> TrendPoint list" where
  "getCrimeTrendData Math_sin st crimeType = movingAvgPass (trendCounts Math_sin st crimeType)"

section \<open>Leaderboard ranker\<close>

text \<open>
  \<^verbatim>\<open>Array.prototype.sort\<close> with the comparator \<^verbatim>\<open>a.score - b.score\<close> is a stable ascending
  sort by score, which is what \<^const>\<open>sort_key\<close> is; \<^verbatim>\<open>slice(0, 10)\<close> is \<^term>\<open>take 10\<close>.
\<close>

definition getLeaderboardData :: "LeaderboardEntry list" where
  "getLeaderboardData =
     (let latestYear = 2021;
          statesWithScores =
            map (\<lambda>st. (st, calculateSafetyScore st latestYear)) INDIAN_STATES
      in map (\<lambda>(index, item).
               \<lparr>riskLevel = riskLevel (snd item), score = score (snd item),
                rank = index + 1, state = fst item\<rparr>)
             (enumerate 0 (take 10 (sort_key (\<lambda>a. score (snd a)) statesWithScores))))"

section \<open>Constants of the API client\<close>

definition AVAILABLE_STATES :: "jsstring list" where
  "AVAILABLE_STATES = map ascii
    [''Andhra Pradesh'', ''Arunachal Pradesh'', ''Assam'', ''Bihar'', ''Chhattisgarh'',
     ''Delhi'', ''Goa'', ''Gujarat'', ''Haryana'', ''Himachal Pradesh'', ''Jammu & Kashmir'',
     ''Jharkhand'', ''Karnataka'', ''Kerala'', ''Madhya Pradesh'', ''Maharashtra'',
     ''Manipur'', ''Meghalaya'', ''Mizoram'', ''Nagaland'', ''Odisha'', ''Punjab'',
     ''Rajasthan'', ''Sikkim'', ''Tamil Nadu'', ''Telangana'', ''Tripura'',
     ''Uttar Pradesh'', ''Uttarakhand'', ''West Bengal'']"

section \<open>SOS message composer\<close>

text \<open>
  The component's state (\<^verbatim>\<open>userName\<close>, \<^verbatim>\<open>area\<close>, \<^verbatim>\<open>mapsLink\<close>) is passed to the two
  closures explicitly. The emoji of the template are surrogate pairs.
\<close>

definition isDigit :: "16 word \<Rightarrow> bool" where
  \<comment> \<open>The complement of the character class \<^verbatim>\<open>\D\<close>: the code units of \<^verbatim>\<open>0\<close> to \<^verbatim>\<open>9\<close>.\<close>
  "isDigit u = (0x30 \<le> u \<and> u \<le> 0x39)"

fun replace_non_digits :: "jsstring \<Rightarrow> jsstring" where
  \<comment> \<open>\<^verbatim>\<open>phone.replace(/\D/g, "")\<close>: scanning from the left, each code unit that matches
      \<^verbatim>\<open>\D\<close> is replaced by the empty string and every other code unit is kept.\<close>
  "replace_non_digits [] = []"
| "replace_non_digits (u # us) =
     (if isDigit u then u # replace_non_digits us else [] @ replace_non_digits us)"

definition or_else :: "jsstring \<Rightarrow> jsstring \<Rightarrow> jsstring" where
  \<comment> \<open>\<^verbatim>\<open>a || b\<close> on strings: the empty string is the only falsy one.\<close>
  "or_else a b = (if a = [] then b else a)"

definition newline :: jsstring where
  "newline = [0x0A]"

definition emoji_siren :: jsstring where
  \<comment> \<open>U+1F6A8\<close>
  "emoji_siren = [0xD83D, 0xDEA8]"

definition emoji_pin :: jsstring where
  \<comment> \<open>U+1F4CD\<close>
  "emoji_pin = [0xD83D, 0xDCCD]"

definition emoji_map :: jsstring where
  \<comment> \<open>U+1F5FA U+FE0F\<close>
  "emoji_map = [0xD83D, 0xDDFA, 0xFE0F]"

definition generateMessage :: "jsstring \<Rightarrow> jsstring \<Rightarrow> jsstring \<Rightarrow> jsstring" where
  "generateMessage userName area mapsLink =
     emoji_siren @ ascii '' EMERGENCY ALERT '' @ emoji_siren @ newline @ newline
     @ ascii ''This is '' @ or_else userName (ascii ''someone'')
     @ ascii '' and I need immediate help!'' @ newline @ newline
     @ emoji_pin @ ascii '' Location: '' @ or_else area (ascii ''Unknown'') @ newline
     @ (if mapsLink \<noteq> [] then emoji_map @ ascii '' Maps: '' @ mapsLink else [])
     @ newline @ newline
     @ ascii ''Please call me or send help immediately. This is an emergency.''"

datatype URIError = URIError

definition isHighSurrogate :: "16 word \<Rightarrow> bool" where
  "isHighSurrogate u = (0xD800 \<le> u \<and> u \<le> 0xDBFF)"

definition isLowSurrogate :: "16 word \<Rightarrow> bool" where
  "isLowSurrogate u = (0xDC00 \<le> u \<and> u \<le> 0xDFFF)"

definition isSurrogate :: "16 word \<Rightarrow> bool" where
  "isSurrogate u = (isHighSurrogate u \<or> isLowSurrogate u)"

fun codePoints :: "jsstring \<Rightarrow> URIError + nat list" where
  \<comment> \<open>The code points of a string, read from the left as the built-in does; a surrogate that
      is not part of a pair makes it throw.\<close>
  "codePoints [] = Inr []"
| "codePoints [u] =
     (if isHighSurrogate u \<or> isLowSurrogate u then Inl URIError else Inr [unat u])"
| "codePoints (u # v # vs) =
     (if isHighSurrogate u then
        (if isLowSurrogate v then
           map_sum id
             (Cons (0x10000 + (unat u - 0xD800) * 0x400 + (unat v - 0xDC00)))
             (codePoints vs)
         else Inl URIError)
      else if isLowSurrogate u then Inl URIError
      else map_sum id (Cons (unat u)) (codePoints (v # vs)))"

definition utf8 :: "nat \<Rightarrow> nat list" where
  "utf8 cp =
     (if cp < 0x80 then [cp]
      else if cp < 0x800 then [0xC0 + cp div 0x40, 0x80 + cp mod 0x40]
      else if cp < 0x10000 then
        [0xE0 + cp div 0x1000, 0x80 + cp div 0x40 mod 0x40, 0x80 + cp mod 0x40]
      else
        [0xF0 + cp div 0x40000, 0x80 + cp div 0x1000 mod 0x40, 0x80 + cp div 0x40 mod 0x40,
         0x80 + cp mod 0x40])"

definition uriUnreserved :: "nat \<Rightarrow> bool" where
  \<comment> \<open>The code points \<^verbatim>\<open>encodeURIComponent\<close> leaves as they are: the letters \<^verbatim>\<open>A\<close> to \<^verbatim>\<open>Z\<close> and
      \<^verbatim>\<open>a\<close> to \<^verbatim>\<open>z\<close>, the digits, and \<^verbatim>\<open>- _ . ! ~ * ' ( )\<close>.\<close>
  "uriUnreserved cp =
     ((0x41 \<le> cp \<and> cp \<le> 0x5A) \<or> (0x61 \<le> cp \<and> cp \<le> 0x7A) \<or> (0x30 \<le> cp \<and> cp \<le> 0x39)
      \<or> cp \<in> {0x2D, 0x5F, 0x2E, 0x21, 0x7E, 0x2A, 0x27, 0x28, 0x29})"

definition hexDigit :: "nat \<Rightarrow> 16 word" where
  \<comment> \<open>The upper-case hexadecimal digit of a value below 16.\<close>
  "hexDigit n = (if n < 10 then of_nat (0x30 + n) else of_nat (0x41 + (n - 10)))"

definition percentEncode :: "nat \<Rightarrow> jsstring" where
  "percentEncode b = [0x25, hexDigit (b div 16), hexDigit (b mod 16)]"

definition encodeCodePoint :: "nat \<Rightarrow> jsstring" where
  "encodeCodePoint cp =
     (if uriUnreserved cp then [of_nat cp] else concat (map percentEncode (utf8 cp)))"

definition encodeURIComponent :: "jsstring \<Rightarrow> URIError + jsstring" where
  \<comment> \<open>The built-in: an unreserved character is copied, every other code point becomes the
      \<^verbatim>\<open>%XX\<close> escapes of its UTF-8 bytes, and an unpaired surrogate throws \<^verbatim>\<open>URIError\<close>.\<close>
  "encodeURIComponent s =
     map_sum id (\<lambda>cps. concat (map encodeCodePoint cps)) (codePoints s)"

definition getWhatsAppLink ::
  "jsstring \<Rightarrow> jsstring \<Rightarrow> jsstring \<Rightarrow> jsstring \<Rightarrow> URIError + jsstring" where
  "getWhatsAppLink userName area mapsLink phone =
     (let cleanPhone = replace_non_digits phone
      in case encodeURIComponent (generateMessage userName area mapsLink) of
           Inl e \<Rightarrow> Inl e
         | Inr encoded \<Rightarrow>
             Inr (ascii ''https://wa.me/'' @ cleanPhone @ ascii ''?text='' @ encoded))"

fun isWellFormed :: "jsstring \<Rightarrow> bool" where
  \<comment> \<open>\<^verbatim>\<open>String.prototype.isWellFormed\<close>: no surrogate stands outside a pair.\<close>
  "isWellFormed [] = True"
| "isWellFormed [u] = (\<not> isHighSurrogate u \<and> \<not> isLowSurrogate u)"
| "isWellFormed (u # v # vs) =
     (if isHighSurrogate u then isLowSurrogate v \<and> isWellFormed vs
      else \<not> isLowSurrogate u \<and> isWellFormed (v # vs))"

section \<open>Facts about rounding\<close>

lemma pow2_pos: "0 < pow2 k"
  by (simp add: pow2_def)




lemma round_half_even_le: "y \<le> of_int N \<Longrightarrow> round_half_even y \<le> N"
proof -
  assume h: "y \<le> of_int N"
  have f: "\<lfloor>y\<rfloor> \<le> N" using h by (simp add: floor_le_iff)
  show ?thesis
  proof (cases "\<lfloor>y\<rfloor> = N")
    case True
    then have "y - of_int \<lfloor>y\<rfloor> \<le> 0" using h by simp
    then show ?thesis using True by (simp add: round_half_even_def Let_def)
  next
    case False
    then have "\<lfloor>y\<rfloor> + 1 \<le> N" using f by simp
    then show ?thesis by (auto simp add: round_half_even_def Let_def)
  qed
qed

lemma ilog2_less: "1 \<le> k \<Longrightarrow> x < 2 ^ k \<Longrightarrow> ilog2 n x < int k"
proof (induction n arbitrary: x k)
  case 0
  then show ?case by simp
next
  case (Suc n)
  show ?case
  proof (cases "x < 1")
    case True
    then have "2 * x < 2 ^ 1" by simp
    from Suc.IH [OF _ this] have "ilog2 n (2 * x) < 1" by simp
    then show ?thesis using True Suc.prems by simp
  next
    case False
    show ?thesis
    proof (cases "2 \<le> x")
      case True
      have k2: "2 \<le> k"
      proof (rule ccontr)
        assume "\<not> 2 \<le> k"
        then have "k = 1" using Suc.prems by simp
        then show False using Suc.prems True by simp
      qed
      then obtain j where j: "k = Suc j" "1 \<le> j" by (cases k) auto
      have "x / 2 < 2 ^ j" using Suc.prems j by simp
      from Suc.IH [OF j(2) this] show ?thesis using True False j by simp
    next
      case F2: False
      then show ?thesis using False Suc.prems by simp
    qed
  qed
qed

lemma ulp_pos: "0 < ulp x"
  by (simp add: ulp_def pow2_pos)





lemma double_le_100: "x \<le> 100 \<Longrightarrow> double x \<le> 100"
proof (cases "0 < x")
  case False
  assume "x \<le> 100"
  show ?thesis
  proof (cases "x = 0")
    case True then show ?thesis by (simp add: double_def)
  next
    case F: False
    then have "x / ulp x \<le> of_int 0" using False ulp_pos [of x] by (simp add: divide_le_0_iff)
    then have "round_half_even (x / ulp x) \<le> 0" by (rule round_half_even_le)
    then have "ulp x * of_int (round_half_even (x / ulp x)) \<le> 0"
      using ulp_pos [of x] by (simp add: mult_le_0_iff)
    then show ?thesis using F by (simp add: double_def)
  qed
next
  case True
  assume le: "x \<le> 100"
  define m where "m = max (ilog2 1100 \<bar>x\<bar> - 52) (- 1074)"
  have "\<bar>x\<bar> < 2 ^ 7" using True le by simp
  then have "ilog2 1100 \<bar>x\<bar> < int 7" by (intro ilog2_less) simp_all
  then have m: "m < 0" by (simp add: m_def)
  have u: "ulp x = 1 / 2 ^ nat (- m)" using m by (simp add: ulp_def m_def pow2_def)
  have "x / ulp x \<le> of_int (100 * 2 ^ nat (- m))"
    using le by (simp add: u)
  then have "round_half_even (x / ulp x) \<le> 100 * 2 ^ nat (- m)" by (rule round_half_even_le)
  then have "real_of_int (round_half_even (x / ulp x)) \<le> real_of_int (100 * 2 ^ nat (- m))"
    by (simp only: of_int_le_iff)
  then have "ulp x * of_int (round_half_even (x / ulp x)) \<le> 100"
    by (simp add: u field_simps)
  then show ?thesis using True by (simp add: double_def)
qed

lemma double_literals:
  "double 0.25 = 1 / 4"
  "double 0.2 = 3602879701896397 / 18014398509481984"
  "double 0.15 = 5404319552844595 / 36028797018963968"
  "double 100 = 100"
  by code_simp+





section \<open>The weighted sum in binary64 arithmetic\<close>


















lemma double_0: "double 0 = 0"
  by (simp add: double_def)

lemma weightedSum_zero:
  "(\<forall>(crime, v) \<in> set es. v = 0) \<Longrightarrow> weightedSum es = 0"
proof -
  assume z: "\<forall>(crime, v) \<in> set es. v = 0"
  have "foldl (\<lambda>acc (crime, v). fadd acc (fmul v (weights crime))) 0 es = 0"
    using z by (induction es) (auto simp add: fadd_def fmul_def double_0)
  then show ?thesis by (simp add: weightedSum_def)
qed







section \<open>Score calculator: the simulation\<close>

text \<open>
  C1 (amended). \<^const>\<open>simulateSafetyScore\<close> has no failing branch. When every crime value is
  zero it returns the score 100 with the risk level Low and the interpretation of Low.
\<close>

theorem simulate_all_zero_scores_100:
  "list_all (\<lambda>(crime, v). v = 0) crimeValues \<Longrightarrow>
     score (simulateSafetyScore crimeValues) = 100 \<and>
     riskLevel (simulateSafetyScore crimeValues) = Low \<and>
     interpretation_text (simulateSafetyScore crimeValues) = interpretations Low"
proof -
  assume "list_all (\<lambda>(crime, v). v = 0) crimeValues"
  then have "\<forall>(crime, v) \<in> set crimeValues. v = 0" by (simp add: list_all_iff)
  then have "weightedSum crimeValues = 0" by (rule weightedSum_zero)
  then have "Math_round (fsub 100 (weightedSum crimeValues)) = 100"
    by (simp add: fsub_def double_literals Math_round_def)
  then show ?thesis by (simp add: simulateSafetyScore_def Let_def)
qed

theorem simulate_all_zero_scores_100_witness:
  "list_all (\<lambda>(crime, v). v = 0) (crimeValuesObject 0 0 0 0 0) \<and>
   score (simulateSafetyScore (crimeValuesObject 0 0 0 0 0)) = 100 \<and>
   riskLevel (simulateSafetyScore (crimeValuesObject 0 0 0 0 0)) = Low \<and>
   interpretation_text (simulateSafetyScore (crimeValuesObject 0 0 0 0 0)) =
     ascii ''The projected safety level is favorable. Standard precautions are sufficient.''"
proof -
  have h: "list_all (\<lambda>(crime, v). v = 0) (crimeValuesObject 0 0 0 0 0)"
    by (simp add: crimeValuesObject_def)
  from simulate_all_zero_scores_100 [OF h] h show ?thesis by simp
qed

text \<open>
  The all-zero input is scored, not rejected: the result is an ordinary result object.
\<close>

theorem simulate_all_zero_not_rejected:
  "simulateSafetyScore (crimeValuesObject 0 0 0 0 0) =
     \<lparr>riskLevel = Low, score = 100,
      interpretation_text = ascii
        ''The projected safety level is favorable. Standard precautions are sufficient.''\<rparr>"
proof -
  have "weightedSum (crimeValuesObject 0 0 0 0 0) = 0"
    by (rule weightedSum_zero) (simp add: crimeValuesObject_def)
  then show ?thesis
    by (simp add: simulateSafetyScore_def Let_def fsub_def double_literals Math_round_def)
qed




section \<open>Dependence on the inputs\<close>




section \<open>Risk levels and the state and year score\<close>

lemma length_ascii: "length (ascii s) = length s"
  by (simp add: ascii_def)

lemma calc_score:
  "score (calculateSafetyScore st yr) =
     min 100 (max 0 (Math_round (real_of_int (40 + js_rem (int (length st) * yr) 50)
                                  + real_of_int (yr - 2001) * 0.5)))"
  by (simp add: calculateSafetyScore_def Let_def)

lemma calc_bounds:
  "0 \<le> score (calculateSafetyScore st yr) \<and> score (calculateSafetyScore st yr) \<le> 100"
  unfolding calc_score by simp

lemma calc_risk:
  "riskLevel (calculateSafetyScore st yr) = risk_bucket (score (calculateSafetyScore st yr))"
  by (auto simp add: calculateSafetyScore_def risk_bucket_def Let_def)

lemma risk_of_simulate:
  "riskLevel (simulateSafetyScore cv) = risk_bucket (score (simulateSafetyScore cv))"
  by (simp add: simulateSafetyScore_def risk_bucket_def Let_def)

lemma calc_2021:
  "calculateSafetyScore st 2021 =
     (let sc = min 100 (real_of_int (50 + (int (length st) * 2021) mod 50))
      in \<lparr>riskLevel = (if sc \<ge> 70 then Low else if sc \<ge> 40 then Medium else High),
          score = sc\<rparr>)"
proof -
  have "js_rem (int (length st) * 2021) 50 = (int (length st) * 2021) mod 50"
    by (simp add: js_rem_def sgn_if)
  moreover have "Math_round (real_of_int (40 + (int (length st) * 2021) mod 50) + 10)
        = real_of_int (50 + (int (length st) * 2021) mod 50)"
    by (simp add: Math_round_def)
  ultimately show ?thesis
    by (simp add: calculateSafetyScore_def Let_def max_def)
qed

text \<open>
  C3. In the state and year score, in the simulation and in the recommendations the risk
  level is the bucket of the score: High below 40, Medium from 40 up to but excluding 70, Low
  from 70; so 40 is Medium and 70 is Low.
\<close>

theorem riskLevel_is_bucket_of_score:
  "riskLevel (calculateSafetyScore st yr) = risk_bucket (score (calculateSafetyScore st yr)) \<and>
   riskLevel (simulateSafetyScore crimeValues) =
     risk_bucket (score (simulateSafetyScore crimeValues)) \<and>
   riskLevel (getSafetyRecommendations sc) = risk_bucket sc \<and>
   risk_bucket 40 = Medium \<and> risk_bucket 70 = Low"
  by (simp add: calc_risk risk_of_simulate)
     (simp add: getSafetyRecommendations_def risk_bucket_def)

text \<open>
  C6. For every state of \<^const>\<open>INDIAN_STATES\<close> and every year of \<^const>\<open>YEARS\<close> the score of
  \<^const>\<open>calculateSafetyScore\<close> lies between 0 and 100, and the risk level is High exactly when
  the score is below 40, Medium exactly when it is from 40 up to but excluding 70, and Low
  exactly when it is 70 or more.
\<close>

theorem calculateSafetyScore_reference_range:
  "st \<in> set INDIAN_STATES \<Longrightarrow> yr \<in> set YEARS \<Longrightarrow>
     0 \<le> score (calculateSafetyScore st yr) \<and> score (calculateSafetyScore st yr) \<le> 100 \<and>
     (riskLevel (calculateSafetyScore st yr) = High
        \<longleftrightarrow> score (calculateSafetyScore st yr) < 40) \<and>
     (riskLevel (calculateSafetyScore st yr) = Medium
        \<longleftrightarrow> 40 \<le> score (calculateSafetyScore st yr) \<and> score (calculateSafetyScore st yr) < 70) \<and>
     (riskLevel (calculateSafetyScore st yr) = Low
        \<longleftrightarrow> 70 \<le> score (calculateSafetyScore st yr))"
  using calc_bounds [of st yr] calc_risk [of st yr] by (auto simp add: risk_bucket_def)

theorem calculateSafetyScore_reference_range_witness:
  "ascii ''Tamil Nadu'' \<in> set INDIAN_STATES \<and> 2021 \<in> set YEARS \<and>
   score (calculateSafetyScore (ascii ''Tamil Nadu'') 2021) = 60 \<and>
   0 \<le> score (calculateSafetyScore (ascii ''Tamil Nadu'') 2021) \<and>
   score (calculateSafetyScore (ascii ''Tamil Nadu'') 2021) \<le> 100 \<and>
   riskLevel (calculateSafetyScore (ascii ''Tamil Nadu'') 2021) = Medium"
proof -
  have a: "ascii ''Tamil Nadu'' \<in> set INDIAN_STATES" by (simp add: INDIAN_STATES_def)
  have b: "2021 \<in> set YEARS" by (simp add: YEARS_def)
  have c: "score (calculateSafetyScore (ascii ''Tamil Nadu'') 2021) = 60"
    by (simp add: calc_2021 length_ascii)
  from calculateSafetyScore_reference_range [OF a b] a b c show ?thesis by simp
qed

section \<open>Leaderboard ranker\<close>

lemma scores_2021:
  "map (\<lambda>st. (st, calculateSafetyScore st 2021)) INDIAN_STATES =
    [(ascii ''Andhra Pradesh'', \<lparr>riskLevel = Low, score = 94\<rparr>),
     (ascii ''Arunachal Pradesh'', \<lparr>riskLevel = Medium, score = 57\<rparr>),
     (ascii ''Assam'', \<lparr>riskLevel = Medium, score = 55\<rparr>),
     (ascii ''Bihar'', \<lparr>riskLevel = Medium, score = 55\<rparr>),
     (ascii ''Chhattisgarh'', \<lparr>riskLevel = Medium, score = 52\<rparr>),
     (ascii ''Goa'', \<lparr>riskLevel = Medium, score = 63\<rparr>),
     (ascii ''Gujarat'', \<lparr>riskLevel = Low, score = 97\<rparr>),
     (ascii ''Haryana'', \<lparr>riskLevel = Low, score = 97\<rparr>),
     (ascii ''Himachal Pradesh'', \<lparr>riskLevel = Low, score = 86\<rparr>),
     (ascii ''Jharkhand'', \<lparr>riskLevel = Low, score = 89\<rparr>),
     (ascii ''Karnataka'', \<lparr>riskLevel = Low, score = 89\<rparr>),
     (ascii ''Kerala'', \<lparr>riskLevel = Low, score = 76\<rparr>),
     (ascii ''Madhya Pradesh'', \<lparr>riskLevel = Low, score = 94\<rparr>),
     (ascii ''Maharashtra'', \<lparr>riskLevel = Low, score = 81\<rparr>),
     (ascii ''Manipur'', \<lparr>riskLevel = Low, score = 97\<rparr>),
     (ascii ''Meghalaya'', \<lparr>riskLevel = Low, score = 89\<rparr>),
     (ascii ''Mizoram'', \<lparr>riskLevel = Low, score = 97\<rparr>),
     (ascii ''Nagaland'', \<lparr>riskLevel = Medium, score = 68\<rparr>),
     (ascii ''Odisha'', \<lparr>riskLevel = Low, score = 76\<rparr>),
     (ascii ''Punjab'', \<lparr>riskLevel = Low, score = 76\<rparr>),
     (ascii ''Rajasthan'', \<lparr>riskLevel = Low, score = 89\<rparr>),
     (ascii ''Sikkim'', \<lparr>riskLevel = Low, score = 76\<rparr>),
     (ascii ''Tamil Nadu'', \<lparr>riskLevel = Medium, score = 60\<rparr>),
     (ascii ''Telangana'', \<lparr>riskLevel = Low, score = 89\<rparr>),
     (ascii ''Tripura'', \<lparr>riskLevel = Low, score = 97\<rparr>),
     (ascii ''Uttar Pradesh'', \<lparr>riskLevel = Low, score = 73\<rparr>),
     (ascii ''Uttarakhand'', \<lparr>riskLevel = Low, score = 81\<rparr>),
     (ascii ''West Bengal'', \<lparr>riskLevel = Low, score = 81\<rparr>),
     (ascii ''Delhi'', \<lparr>riskLevel = Medium, score = 55\<rparr>)]"
  by (simp add: INDIAN_STATES_def calc_2021 length_ascii)

lemma getLeaderboardData_value:
  "getLeaderboardData =
    [\<lparr>riskLevel = Medium, score = 52, rank = 1, state = ascii ''Chhattisgarh''\<rparr>,
     \<lparr>riskLevel = Medium, score = 55, rank = 2, state = ascii ''Assam''\<rparr>,
     \<lparr>riskLevel = Medium, score = 55, rank = 3, state = ascii ''Bihar''\<rparr>,
     \<lparr>riskLevel = Medium, score = 55, rank = 4, state = ascii ''Delhi''\<rparr>,
     \<lparr>riskLevel = Medium, score = 57, rank = 5, state = ascii ''Arunachal Pradesh''\<rparr>,
     \<lparr>riskLevel = Medium, score = 60, rank = 6, state = ascii ''Tamil Nadu''\<rparr>,
     \<lparr>riskLevel = Medium, score = 63, rank = 7, state = ascii ''Goa''\<rparr>,
     \<lparr>riskLevel = Medium, score = 68, rank = 8, state = ascii ''Nagaland''\<rparr>,
     \<lparr>riskLevel = Low, score = 73, rank = 9, state = ascii ''Uttar Pradesh''\<rparr>,
     \<lparr>riskLevel = Low, score = 76, rank = 10, state = ascii ''Kerala''\<rparr>]"
  unfolding getLeaderboardData_def Let_def scores_2021 by simp

lemma all_scores_2021:
  "map (\<lambda>st. score (calculateSafetyScore st 2021)) INDIAN_STATES =
     [94, 57, 55, 55, 52, 63, 97, 97, 86, 89, 89, 76, 94, 81, 97, 89, 97, 68, 76, 76, 89, 76,
      60, 89, 97, 73, 81, 81, 55]"
proof -
  have "map (\<lambda>st. score (calculateSafetyScore st 2021)) INDIAN_STATES =
        map (\<lambda>p. score (snd p)) (map (\<lambda>st. (st, calculateSafetyScore st 2021)) INDIAN_STATES)"
    by (simp add: comp_def)
  then show ?thesis unfolding scores_2021 by simp
qed

lemma positions: "[0..<length INDIAN_STATES] =
  [0, 1, 2, 3, 4, 5, 6, 7, 8, 9, 10, 11, 12, 13, 14, 15, 16, 17, 18, 19, 20, 21, 22, 23, 24,
   25, 26, 27, 28]"
  by (simp add: INDIAN_STATES_def upt_rec)

lemma ten_lowest_positions:
  "take 10 (sort (zip (map (\<lambda>st. score (calculateSafetyScore st 2021)) INDIAN_STATES)
                     [0..<length INDIAN_STATES])) =
     [(52, 4), (55, 2), (55, 3), (55, 28), (57, 1), (60, 22), (63, 5), (68, 17), (73, 25),
      (76, 11)]"
  unfolding all_scores_2021 positions by simp

text \<open>
  C4 (amended). \<^const>\<open>getLeaderboardData\<close> has no year filter: it scores every state of
  \<^const>\<open>INDIAN_STATES\<close> for 2021, sorts by ascending score and keeps the first ten. The list it
  returns is the ten rows below, with the ranks 1 to 10. It is sorted ascending by score and
  names ten different states; its states are the ten that come first when all states are
  ordered by score and, for equal scores, by their position in \<^const>\<open>INDIAN_STATES\<close>; and each
  row has the score and risk level that \<^const>\<open>calculateSafetyScore\<close> computes for its state.
\<close>

theorem leaderboard_ten_lowest_sorted:
  "getLeaderboardData =
    [\<lparr>riskLevel = Medium, score = 52, rank = 1, state = ascii ''Chhattisgarh''\<rparr>,
     \<lparr>riskLevel = Medium, score = 55, rank = 2, state = ascii ''Assam''\<rparr>,
     \<lparr>riskLevel = Medium, score = 55, rank = 3, state = ascii ''Bihar''\<rparr>,
     \<lparr>riskLevel = Medium, score = 55, rank = 4, state = ascii ''Delhi''\<rparr>,
     \<lparr>riskLevel = Medium, score = 57, rank = 5, state = ascii ''Arunachal Pradesh''\<rparr>,
     \<lparr>riskLevel = Medium, score = 60, rank = 6, state = ascii ''Tamil Nadu''\<rparr>,
     \<lparr>riskLevel = Medium, score = 63, rank = 7, state = ascii ''Goa''\<rparr>,
     \<lparr>riskLevel = Medium, score = 68, rank = 8, state = ascii ''Nagaland''\<rparr>,
     \<lparr>riskLevel = Low, score = 73, rank = 9, state = ascii ''Uttar Pradesh''\<rparr>,
     \<lparr>riskLevel = Low, score = 76, rank = 10, state = ascii ''Kerala''\<rparr>] \<and>
   sorted (map score getLeaderboardData) \<and>
   distinct (map state getLeaderboardData) \<and>
   map (\<lambda>e. (score e, state e)) getLeaderboardData =
     map (\<lambda>(s, i). (s, INDIAN_STATES ! i))
       (take 10 (sort (zip (map (\<lambda>st. score (calculateSafetyScore st 2021)) INDIAN_STATES)
                           [0..<length INDIAN_STATES]))) \<and>
   list_all (\<lambda>e. score e = score (calculateSafetyScore (state e) 2021) \<and>
                  riskLevel e = riskLevel (calculateSafetyScore (state e) 2021))
     getLeaderboardData"
proof -
  have "map (\<lambda>e. (score e, state e)) getLeaderboardData =
     map (\<lambda>(s, i). (s, INDIAN_STATES ! i))
       (take 10 (sort (zip (map (\<lambda>st. score (calculateSafetyScore st 2021)) INDIAN_STATES)
                           [0..<length INDIAN_STATES])))"
    unfolding ten_lowest_positions getLeaderboardData_value by (simp add: INDIAN_STATES_def)
  moreover have "list_all (\<lambda>e. score e = score (calculateSafetyScore (state e) 2021) \<and>
                  riskLevel e = riskLevel (calculateSafetyScore (state e) 2021))
     getLeaderboardData"
    unfolding getLeaderboardData_value by (simp add: calc_2021 length_ascii)
  moreover have "sorted (map score getLeaderboardData) \<and>
     distinct (map state getLeaderboardData)"
    unfolding getLeaderboardData_value by (simp add: ascii_def)
  ultimately show ?thesis using getLeaderboardData_value by blast
qed

text \<open>
  Gujarat is a known state with no entry in the leaderboard, which has ten entries for the
  twenty-nine states.
\<close>

theorem leaderboard_omits_states:
  "ascii ''Gujarat'' \<in> set INDIAN_STATES \<and>
   ascii ''Gujarat'' \<notin> set (map state getLeaderboardData) \<and>
   length getLeaderboardData = 10 \<and> length INDIAN_STATES = 29"
  unfolding getLeaderboardData_value by (simp add: INDIAN_STATES_def) (simp add: ascii_def)

section \<open>Trend aggregator\<close>

lemma nth_movingAvgPass:
  "i < length data \<Longrightarrow>
     movingAvgPass data ! i =
       (if 2 \<le> i then
          (data ! i)\<lparr>movingAvg := Some (Math_round
             ((count (data ! i) + count (data ! (i - 1)) + count (data ! (i - 2))) / 3))\<rparr>
        else data ! i)"
  by (simp add: movingAvgPass_def nth_enumerate_eq Let_def)

lemma length_movingAvgPass: "length (movingAvgPass data) = length data"
  by (simp add: movingAvgPass_def)

lemma length_trendCounts: "length (trendCounts S st ct) = 21"
  by (simp add: trendCounts_def YEARS_def Let_def)

lemma nth_trendCounts:
  "i < 21 \<Longrightarrow>
     trendCounts S st ct ! i =
       \<lparr>year = 2001 + int i,
        count = max 0 (Math_round
          (real (500 + (length st + length (crimeTypeName ct)) mod 2000)
            + S (real i * 0.3) * 200
            + S (real (length st + length (crimeTypeName ct)) * real_of_int (2001 + int i)) * 100
            + real i * 15)),
        movingAvg = None\<rparr>"
  by (simp add: trendCounts_def YEARS_def Let_def nth_enumerate_eq del: upt_Suc)

lemma count_getCrimeTrendData:
  "i < 21 \<Longrightarrow>
     count (getCrimeTrendData S st ct ! i) = count (trendCounts S st ct ! i)"
  by (simp add: getCrimeTrendData_def nth_movingAvgPass length_trendCounts)

text \<open>
  C7. In the series of \<^const>\<open>getCrimeTrendData\<close>, which has one point for each of the 21 years,
  the point at index \<open>i\<close> carries a moving average exactly when \<open>i\<close> is at least 2, that is
  when it has two points before it; the value is \<^verbatim>\<open>Math.round\<close> of the mean of the counts at
  \<open>i\<close>, \<open>i - 1\<close> and \<open>i - 2\<close>. This holds for every state, crime type and sine function.
\<close>

theorem trend_movingAvg_trailing_three:
  "i < length YEARS \<Longrightarrow>
     length (getCrimeTrendData Math_sin st crimeType) = length YEARS \<and>
     movingAvg (getCrimeTrendData Math_sin st crimeType ! i) =
       (if 2 \<le> i then
          Some (Math_round
            ((count (getCrimeTrendData Math_sin st crimeType ! i)
               + count (getCrimeTrendData Math_sin st crimeType ! (i - 1))
               + count (getCrimeTrendData Math_sin st crimeType ! (i - 2))) / 3))
        else None)"
proof -
  assume "i < length YEARS"
  then have i: "i < 21" by (simp add: YEARS_def)
  let ?d = "trendCounts Math_sin st crimeType"
  have len: "length ?d = 21" by (rule length_trendCounts)
  have none: "movingAvg (?d ! i) = None" using i by (simp add: nth_trendCounts)
  have "movingAvg (movingAvgPass ?d ! i) =
     (if 2 \<le> i then
        Some (Math_round ((count (?d ! i) + count (?d ! (i - 1)) + count (?d ! (i - 2))) / 3))
      else None)"
    using i len none by (simp add: nth_movingAvgPass)
  moreover have "count (getCrimeTrendData Math_sin st crimeType ! (i - 1)) = count (?d ! (i - 1))"
    "count (getCrimeTrendData Math_sin st crimeType ! (i - 2)) = count (?d ! (i - 2))"
    "count (getCrimeTrendData Math_sin st crimeType ! i) = count (?d ! i)"
    using i by (simp_all add: count_getCrimeTrendData)
  moreover have "length (getCrimeTrendData Math_sin st crimeType) = length YEARS"
    by (simp add: getCrimeTrendData_def length_movingAvgPass len YEARS_def)
  ultimately show ?thesis by (simp add: getCrimeTrendData_def)
qed

theorem trend_movingAvg_trailing_three_witness:
  "2 < length YEARS \<and>
   length (getCrimeTrendData (\<lambda>x. 0) (ascii ''Goa'') Rape) = 21 \<and>
   count (getCrimeTrendData (\<lambda>x. 0) (ascii ''Goa'') Rape ! 0) = 507 \<and>
   count (getCrimeTrendData (\<lambda>x. 0) (ascii ''Goa'') Rape ! 1) = 522 \<and>
   count (getCrimeTrendData (\<lambda>x. 0) (ascii ''Goa'') Rape ! 2) = 537 \<and>
   movingAvg (getCrimeTrendData (\<lambda>x. 0) (ascii ''Goa'') Rape ! 2) = Some 522"
proof -
  have h: "2 < length YEARS" by (simp add: YEARS_def)
  have l: "length YEARS = 21" by (simp add: YEARS_def)
  have c0: "count (getCrimeTrendData (\<lambda>x. 0) (ascii ''Goa'') Rape ! 0) = 507"
    by (simp add: count_getCrimeTrendData nth_trendCounts Math_round_def length_ascii)
  have c1: "count (getCrimeTrendData (\<lambda>x. 0) (ascii ''Goa'') Rape ! 1) = 522"
    by (simp add: count_getCrimeTrendData nth_trendCounts Math_round_def length_ascii)
  have c2: "count (getCrimeTrendData (\<lambda>x. 0) (ascii ''Goa'') Rape ! 2) = 537"
    by (simp add: count_getCrimeTrendData nth_trendCounts Math_round_def length_ascii)
  have r: "Math_round ((537 + 522 + 507) / 3) = 522" by (simp add: Math_round_def)
  from trend_movingAvg_trailing_three [OF h, of "\<lambda>x. 0" "ascii ''Goa''" Rape] h l c0 c1 c2 r
  show ?thesis by simp
qed

section \<open>State names\<close>

text \<open>
  C8 (amended). The enumeration \<^const>\<open>AVAILABLE_STATES\<close> of the API client contains exactly 30
  different names, and every name of \<^const>\<open>INDIAN_STATES\<close> is one of them. The scoring and
  trend operations of the mock data layer do not check their state argument against either
  list: they return a result for every string, the same for any two strings with the same
  number of code units.
\<close>

theorem state_queries_depend_on_length_only:
  "length st = length st' \<Longrightarrow>
     length AVAILABLE_STATES = 30 \<and> distinct AVAILABLE_STATES \<and>
     set INDIAN_STATES \<subseteq> set AVAILABLE_STATES \<and>
     calculateSafetyScore st yr = calculateSafetyScore st' yr \<and>
     getCrimeTrendData Math_sin st crimeType = getCrimeTrendData Math_sin st' crimeType"
  by (simp add: calculateSafetyScore_def getCrimeTrendData_def trendCounts_def)
     (simp add: AVAILABLE_STATES_def INDIAN_STATES_def ascii_def)

theorem state_queries_depend_on_length_only_witness:
  "length (ascii ''Goa'') = length [0xE9, 0x2014, 0xD800 :: 16 word] \<and>
   ascii ''Goa'' \<in> set AVAILABLE_STATES \<and>
   [0xE9, 0x2014, 0xD800] \<notin> set AVAILABLE_STATES \<and> length AVAILABLE_STATES = 30 \<and>
   calculateSafetyScore [0xE9, 0x2014, 0xD800] 2021 = calculateSafetyScore (ascii ''Goa'') 2021 \<and>
   score (calculateSafetyScore [0xE9, 0x2014, 0xD800] 2021) = 63 \<and>
   getCrimeTrendData (\<lambda>x. 0) [0xE9, 0x2014, 0xD800] Rape =
     getCrimeTrendData (\<lambda>x. 0) (ascii ''Goa'') Rape"
proof -
  have h: "length (ascii ''Goa'') = length [0xE9, 0x2014, 0xD800 :: 16 word]"
    by (simp add: length_ascii)
  have m: "ascii ''Goa'' \<in> set AVAILABLE_STATES \<and> [0xE9, 0x2014, 0xD800] \<notin> set AVAILABLE_STATES"
    by (simp add: AVAILABLE_STATES_def ascii_def)
  have s: "score (calculateSafetyScore (ascii ''Goa'') 2021) = 63"
    by (simp add: calc_2021 length_ascii)
  from state_queries_depend_on_length_only [OF h, of 2021 "\<lambda>x. 0" Rape] h m s
  show ?thesis by simp
qed

text \<open>
  \<^const>\<open>INDIAN_STATES\<close> has 29 names. Jammu and Kashmir is one of the 30 names of
  \<^const>\<open>AVAILABLE_STATES\<close> and is not in \<^const>\<open>INDIAN_STATES\<close>, and Atlantis is in neither
  list; both are scored like any other string.
\<close>

theorem unknown_state_is_scored:
  "length INDIAN_STATES = 29 \<and>
   ascii ''Jammu & Kashmir'' \<in> set AVAILABLE_STATES \<and>
   ascii ''Jammu & Kashmir'' \<notin> set INDIAN_STATES \<and>
   calculateSafetyScore (ascii ''Jammu & Kashmir'') 2021 = \<lparr>riskLevel = Medium, score = 65\<rparr> \<and>
   ascii ''Atlantis'' \<notin> set INDIAN_STATES \<and> ascii ''Atlantis'' \<notin> set AVAILABLE_STATES \<and>
   calculateSafetyScore (ascii ''Atlantis'') 2021 = \<lparr>riskLevel = Medium, score = 68\<rparr>"
  by (simp add: calc_2021 length_ascii)
     (simp add: INDIAN_STATES_def AVAILABLE_STATES_def ascii_def)

section \<open>SOS message composer\<close>

lemma replace_non_digits_filter: "replace_non_digits phone = filter isDigit phone"
  by (induction phone) simp_all

lemma isl_codePoints: "isl (codePoints s) = (\<not> isWellFormed s)"
  by (induction s rule: codePoints.induct) (auto simp add: isl_map_sum)

lemma encodeURIComponent_fails_iff: "isl (encodeURIComponent s) = (\<not> isWellFormed s)"
  by (simp add: encodeURIComponent_def isl_map_sum isl_codePoints)

lemma isWellFormed_Cons: "\<not> isSurrogate b \<Longrightarrow> isWellFormed (b # ys) = isWellFormed ys"
  by (cases ys) (simp_all add: isSurrogate_def)

lemma isWellFormed_split:
  "\<not> isSurrogate b \<Longrightarrow> isWellFormed (xs @ b # ys) = (isWellFormed xs \<and> isWellFormed ys)"
proof (induction xs rule: isWellFormed.induct)
  case 1
  then show ?case by (simp add: isWellFormed_Cons)
next
  case (2 u)
  then show ?case by (auto simp add: isSurrogate_def isWellFormed_Cons)
next
  case (3 u v vs)
  then show ?case by auto
qed

lemma ascii_not_surrogate: "u \<in> set (ascii s) \<Longrightarrow> \<not> isSurrogate u"
proof -
  assume "u \<in> set (ascii s)"
  then obtain c where u: "u = of_nat (of_char c)" by (auto simp add: ascii_def)
  have c: "(of_char c :: nat) < 256" by simp
  have "unat u = (of_char c :: nat) mod 2 ^ LENGTH(16)" unfolding u by (rule unat_of_nat)
  also have "\<dots> = of_char c"
  proof (rule mod_less)
    have "(256::nat) \<le> 2 ^ LENGTH(16)" by simp
    with c show "(of_char c :: nat) < 2 ^ LENGTH(16)" by (rule less_le_trans)
  qed
  finally have "unat u < 256" using c by simp
  then show ?thesis
    by (simp add: isSurrogate_def isHighSurrogate_def isLowSurrogate_def word_le_nat_alt)
qed

lemma isWellFormed_ascii: "isWellFormed (ascii s)"
proof (induction s)
  case Nil
  show ?case by (simp add: ascii_def)
next
  case (Cons c s)
  have "\<not> isSurrogate (of_nat (of_char c))"
    using ascii_not_surrogate [of "of_nat (of_char c)" "[c]"] by (simp add: ascii_def)
  then show ?case using Cons by (simp add: ascii_def isWellFormed_Cons)
qed


lemma isWellFormed_generateMessage:
  "isWellFormed (generateMessage userName area mapsLink) =
     (isWellFormed userName \<and> isWellFormed area \<and> isWellFormed mapsLink)"
proof -
  have nl: "\<not> isSurrogate 0x0A"
    by (simp add: isSurrogate_def isHighSurrogate_def isLowSurrogate_def)
  have sp: "\<not> isSurrogate 0x20"
    by (simp add: isSurrogate_def isHighSurrogate_def isLowSurrogate_def)
  have hi: "isHighSurrogate 0xD83D" "\<not> isHighSurrogate 0xFE0F" "\<not> isLowSurrogate 0xFE0F"
    and lo: "isLowSurrogate 0xDEA8" "isLowSurrogate 0xDCCD" "isLowSurrogate 0xDDFA"
    by (simp_all add: isHighSurrogate_def isLowSurrogate_def)
  have or_wf: "isWellFormed (or_else x (ascii d)) = isWellFormed x" for x d
    by (simp add: or_else_def isWellFormed_ascii)
  have tail: "isWellFormed (x @ 0x0A # rest) = (isWellFormed x \<and> isWellFormed rest)" for x rest
    using nl by (rule isWellFormed_split)
  have head: "isWellFormed (x @ 0x20 # rest) = (isWellFormed x \<and> isWellFormed rest)" for x rest
    using sp by (rule isWellFormed_split)
  have maps: "isWellFormed (if mapsLink \<noteq> [] then emoji_map @ ascii '' Maps: '' @ mapsLink else [])
                = isWellFormed mapsLink"
  proof (cases "mapsLink = []")
    case True
    then show ?thesis by simp
  next
    case False
    have e: "emoji_map @ ascii '' Maps: '' @ mapsLink
            = (emoji_map @ ascii '' Maps:'') @ 0x20 # mapsLink"
      by (simp add: ascii_def)
    have w: "isWellFormed (emoji_map @ ascii '' Maps:'')"
      by (simp add: emoji_map_def ascii_def hi lo isHighSurrogate_def isLowSurrogate_def)
    have "isWellFormed (emoji_map @ ascii '' Maps: '' @ mapsLink) = isWellFormed mapsLink"
      by (simp only: e head w simp_thms)
    then show ?thesis using False by simp
  qed
  have m: "generateMessage userName area mapsLink =
     (emoji_siren @ ascii '' EMERGENCY ALERT '' @ emoji_siren @ newline @ newline
        @ ascii ''This is'') @ 0x20 #
     (or_else userName (ascii ''someone'') @ 0x20 #
       ((ascii ''and I need immediate help!'' @ newline @ newline @ emoji_pin
          @ ascii '' Location:'') @ 0x20 #
        (or_else area (ascii ''Unknown'') @ 0x0A #
          ((if mapsLink \<noteq> [] then emoji_map @ ascii '' Maps: '' @ mapsLink else [])
            @ 0x0A # (0x0A #
              ascii ''Please call me or send help immediately. This is an emergency.'')))))"
    by (simp add: generateMessage_def newline_def ascii_def)
  have a: "isWellFormed (emoji_siren @ ascii '' EMERGENCY ALERT '' @ emoji_siren @ newline
        @ newline @ ascii ''This is'')"
    by (simp add: emoji_siren_def newline_def ascii_def hi lo isHighSurrogate_def
        isLowSurrogate_def)
  have b: "isWellFormed (ascii ''and I need immediate help!'' @ newline @ newline @ emoji_pin
          @ ascii '' Location:'')"
    by (simp add: emoji_pin_def newline_def ascii_def hi lo isHighSurrogate_def
        isLowSurrogate_def)
  have c: "isWellFormed (0x0A #
              ascii ''Please call me or send help immediately. This is an emergency.'')"
    by (simp add: isWellFormed_Cons nl isWellFormed_ascii)
  show ?thesis
    unfolding m by (simp only: head tail maps or_wf a b c simp_thms)
qed

lemmas link_eval =
  getWhatsAppLink_def generateMessage_def encodeURIComponent_def encodeCodePoint_def
  utf8_def uriUnreserved_def percentEncode_def hexDigit_def isDigit_def or_else_def
  newline_def emoji_siren_def emoji_pin_def emoji_map_def isHighSurrogate_def
  isLowSurrogate_def ascii_def

lemma getWhatsAppLink_example:
  "getWhatsAppLink [] [] [] (ascii ''+91 98765-43210'') =
     Inr (ascii ''https://wa.me/919876543210?text=%F0%9F%9A%A8%20EMERGENCY%20ALERT%20%F0%9F%9A%A8%0A%0AThis%20is%20someone%20and%20I%20need%20immediate%20help!%0A%0A%F0%9F%93%8D%20Location%3A%20Unknown%0A%0A%0APlease%20call%20me%20or%20send%20help%20immediately.%20This%20is%20an%20emergency.'')"
  by (simp add: link_eval)

lemma getWhatsAppLink_lone_surrogate:
  "getWhatsAppLink [0xD83D] [] [] (ascii ''+91 98765-43210'') = Inl URIError"
  by (simp add: link_eval)

text \<open>
  C10. For every phone string and every name, area and maps link, \<^const>\<open>getWhatsAppLink\<close>
  returns \<^verbatim>\<open>https://wa.me/\<close>, then the digits of the phone string in their order, then
  \<^verbatim>\<open>?text=\<close>, then the URI-encoded alert message; \<^verbatim>\<open>encodeURIComponent\<close> throws, and no link
  is made, exactly when the name, the area or the maps link has a surrogate outside a pair,
  whatever the phone string is. \<^const>\<open>generateMessage\<close> has no failing branch: the message is
  the template with \<^verbatim>\<open>someone\<close> for an empty name, \<^verbatim>\<open>Unknown\<close> for an empty area and no maps
  line for an empty link. The last equation is the link for empty fields and one phone string.
\<close>

theorem whatsapp_link_shape:
  "getWhatsAppLink userName area mapsLink phone =
     map_sum id
       (\<lambda>encoded. ascii ''https://wa.me/'' @ filter isDigit phone @ ascii ''?text='' @ encoded)
       (encodeURIComponent (generateMessage userName area mapsLink)) \<and>
   isl (getWhatsAppLink userName area mapsLink phone) =
     (\<not> (isWellFormed userName \<and> isWellFormed area \<and> isWellFormed mapsLink)) \<and>
   generateMessage userName area mapsLink =
     [0xD83D, 0xDEA8] @ ascii '' EMERGENCY ALERT '' @ [0xD83D, 0xDEA8, 0x0A, 0x0A]
     @ ascii ''This is '' @ (if userName = [] then ascii ''someone'' else userName)
     @ ascii '' and I need immediate help!'' @ [0x0A, 0x0A, 0xD83D, 0xDCCD]
     @ ascii '' Location: '' @ (if area = [] then ascii ''Unknown'' else area) @ [0x0A]
     @ (if mapsLink = [] then [] else [0xD83D, 0xDDFA, 0xFE0F] @ ascii '' Maps: '' @ mapsLink)
     @ [0x0A, 0x0A]
     @ ascii ''Please call me or send help immediately. This is an emergency.'' \<and>
   getWhatsAppLink [] [] [] (ascii ''+91 98765-43210'') =
     Inr (ascii ''https://wa.me/919876543210?text=%F0%9F%9A%A8%20EMERGENCY%20ALERT%20%F0%9F%9A%A8%0A%0AThis%20is%20someone%20and%20I%20need%20immediate%20help!%0A%0A%F0%9F%93%8D%20Location%3A%20Unknown%0A%0A%0APlease%20call%20me%20or%20send%20help%20immediately.%20This%20is%20an%20emergency.'')"
proof -
  have a: "getWhatsAppLink userName area mapsLink phone =
     map_sum id
       (\<lambda>encoded. ascii ''https://wa.me/'' @ filter isDigit phone @ ascii ''?text='' @ encoded)
       (encodeURIComponent (generateMessage userName area mapsLink))"
    by (cases "encodeURIComponent (generateMessage userName area mapsLink)")
       (simp_all add: getWhatsAppLink_def replace_non_digits_filter)
  have b: "isl (getWhatsAppLink userName area mapsLink phone) =
     (\<not> (isWellFormed userName \<and> isWellFormed area \<and> isWellFormed mapsLink))"
    unfolding a
    by (simp add: isl_map_sum encodeURIComponent_fails_iff isWellFormed_generateMessage)
  have c: "generateMessage userName area mapsLink =
     [0xD83D, 0xDEA8] @ ascii '' EMERGENCY ALERT '' @ [0xD83D, 0xDEA8, 0x0A, 0x0A]
     @ ascii ''This is '' @ (if userName = [] then ascii ''someone'' else userName)
     @ ascii '' and I need immediate help!'' @ [0x0A, 0x0A, 0xD83D, 0xDCCD]
     @ ascii '' Location: '' @ (if area = [] then ascii ''Unknown'' else area) @ [0x0A]
     @ (if mapsLink = [] then [] else [0xD83D, 0xDDFA, 0xFE0F] @ ascii '' Maps: '' @ mapsLink)
     @ [0x0A, 0x0A]
     @ ascii ''Please call me or send help immediately. This is an emergency.''"
    by (simp add: generateMessage_def or_else_def newline_def emoji_siren_def emoji_pin_def
        emoji_map_def)
  from a b c getWhatsAppLink_example show ?thesis by blast
qed

end
